theory Spec2Isabelle
  imports Complex_Main
begin

section \<open>Python values, records and the remote API\<close>

text \<open>
  The values that the coordinator caches and that the remote API client returns are
  decoded JSON: none, booleans, integers, floats, strings, lists and mappings with string
  keys. A mapping is an association list read with \<open>map_of\<close>.
\<close>

datatype pyval =
    PNone
  | PBool bool
  | PInt int
  | PFloat real
  | PStr string
  | PList "pyval list"
  | PDict "(string \<times> pyval) list"

text \<open>The cached record \<open>self._data\<close>: a mapping from field name to value.\<close>

type_synonym record_data = "string \<rightharpoonup> pyval"

text \<open>
  Exceptions that can leave a method: the \<open>KeyError\<close> of a subscript on the cached
  record, and whatever the remote API client raises.
\<close>

datatype exn = KeyError string | ApiError string

datatype level = Error | Warning

text \<open>
  What a method does to the outside: a remote call \<open>api.query(method, params)\<close> or a
  call of the module logger with its format string and arguments.
\<close>

datatype event = Call string pyval | Log level string "pyval list"

text \<open>
  The remote API client is an external collaborator. Its answer to a call may depend on
  everything that happened before, so it is a function of the events so far, the method
  name and the parameters; it returns a decoded value or raises.
\<close>

type_synonym api = "event list \<Rightarrow> string \<Rightarrow> pyval \<Rightarrow> exn + pyval"

text \<open>\<open>self._data[key]\<close>: raises \<open>KeyError\<close> when the key is absent.\<close>

definition getitem :: "record_data \<Rightarrow> string \<Rightarrow> exn + pyval" where
  "getitem d k = (case d k of None \<Rightarrow> Inl (KeyError k) | Some v \<Rightarrow> Inr v)"

text \<open>
  \<open>await self.hass.async_add_executor_job(self.coordinator.api.query, method, params)\<close>:
  the call is recorded, and its result or exception is handed back to the caller.
\<close>

definition api_query :: "api \<Rightarrow> string \<Rightarrow> pyval \<Rightarrow> event list \<Rightarrow> event list \<times> (exn + pyval)" where
  "api_query q method params tr = (tr @ [Call method params], q tr method params)"

section \<open>TrueNASSensor\<close>

text \<open>\<open>native_value\<close>: \<open>self._data[self.entity_description.data_attribute]\<close>.\<close>

definition native_value :: "record_data \<Rightarrow> string \<Rightarrow> exn + pyval" where
  "native_value d data_attribute = getitem d data_attribute"

text \<open>
  \<open>native_unit_of_measurement\<close>: the configured unit is a string or none. The outer
  \<open>if\<close> tests its truth value, so none and the empty string both lead to the final
  \<open>return None\<close>. \<open>startswith("data__")\<close> compares the first six characters and
  \<open>[6:]\<close> drops them.
\<close>

definition native_unit_of_measurement :: "record_data \<Rightarrow> string option \<Rightarrow> pyval" where
  "native_unit_of_measurement d unit =
     (case unit of
        None \<Rightarrow> PNone
      | Some u \<Rightarrow>
          if u \<noteq> [] then
            (if take 6 u = ''data__'' then
               (let uom = drop 6 u in
                case d uom of
                  Some v \<Rightarrow> v
                | None \<Rightarrow> PStr u)
             else PStr u)
          else PNone)"

section \<open>TrueNASUptimeSensor\<close>

definition TrueNASUptimeSensor_restart :: "api \<Rightarrow> event list \<Rightarrow> event list \<times> (exn + unit)" where
  "TrueNASUptimeSensor_restart q tr =
     (case api_query q ''system.reboot'' (PList [PStr ''Home Assistant Integration'']) tr of
        (tr1, Inl e) \<Rightarrow> (tr1, Inl e)
      | (tr1, Inr _) \<Rightarrow> (tr1, Inr ()))"

definition TrueNASUptimeSensor_stop :: "api \<Rightarrow> event list \<Rightarrow> event list \<times> (exn + unit)" where
  "TrueNASUptimeSensor_stop q tr =
     (case api_query q ''system.shutdown'' (PList [PStr ''Home Assistant Integration'']) tr of
        (tr1, Inl e) \<Rightarrow> (tr1, Inl e)
      | (tr1, Inr _) \<Rightarrow> (tr1, Inr ()))"

section \<open>TrueNASDatasetSensor\<close>

text \<open>
  \<open>datetime.now()\<close> is a naive local date and time; the clock is a parameter of the
  model. The constructor of \<open>datetime\<close> keeps the year within four digits, month, day,
  hour, minute and second within two and the microsecond within six.
\<close>

record datetime =
  year :: nat
  month :: nat
  day :: nat
  hour :: nat
  minute :: nat
  second :: nat
  microsecond :: nat

definition digit :: "nat \<Rightarrow> char" where
  "digit k = char_of (48 + k mod 10)"

text \<open>\<open>"%0wd"\<close> for a number of at most \<open>w\<close> digits.\<close>

fun zpad :: "nat \<Rightarrow> nat \<Rightarrow> string" where
  "zpad 0 k = []"
| "zpad (Suc w) k = zpad w (k div 10) @ [digit k]"

text \<open>
  \<open>isoformat(sep="_", timespec="microseconds")\<close> of a naive datetime:
  \<open>YYYY-MM-DD_HH:MM:SS.ffffff\<close>, with no offset suffix.
\<close>

definition isoformat :: "datetime \<Rightarrow> string" where
  "isoformat t =
     zpad 4 (year t) @ ''-'' @ zpad 2 (month t) @ ''-'' @ zpad 2 (day t) @ ''_'' @
     zpad 2 (hour t) @ '':'' @ zpad 2 (minute t) @ '':'' @ zpad 2 (second t) @ ''.'' @
     zpad 6 (microsecond t)"

text \<open>
  Reading a text back: the number that a string of decimal digits denotes, and the test
  that a character is one of \<open>0\<close> to \<open>9\<close>.
\<close>

definition decimal :: "string \<Rightarrow> nat" where
  "decimal s = foldl (\<lambda>a c. 10 * a + (of_char c - 48)) 0 s"

definition is_decimal :: "char \<Rightarrow> bool" where
  "is_decimal c = (48 \<le> (of_char c :: nat) \<and> (of_char c :: nat) \<le> 57)"

text \<open>
  A replacement field \<open>{v}\<close> of an f-string inserts a string unchanged. The text that
  Python's \<open>str\<close> gives for a value of another type stays a parameter.
\<close>

definition format_value :: "(pyval \<Rightarrow> string) \<Rightarrow> pyval \<Rightarrow> string" where
  "format_value str_other v = (case v of PStr s \<Rightarrow> s | _ \<Rightarrow> str_other v)"

text \<open>\<open>isinstance(result, dict) and "error" in result\<close>.\<close>

fun has_error :: "pyval \<Rightarrow> bool" where
  "has_error (PDict kv) = (map_of kv ''error'' \<noteq> None)"
| "has_error _ = False"

definition snapshot_payload :: "(pyval \<Rightarrow> string) \<Rightarrow> datetime \<Rightarrow> pyval \<Rightarrow> pyval" where
  "snapshot_payload str_other now nm =
     PDict [(''dataset'', PStr (format_value str_other nm)),
            (''name'', PStr (''custom-'' @ isoformat now))]"

definition TrueNASDatasetSensor_snapshot ::
  "(pyval \<Rightarrow> string) \<Rightarrow> api \<Rightarrow> datetime \<Rightarrow> record_data \<Rightarrow> event list \<Rightarrow> event list \<times> (exn + unit)" where
  "TrueNASDatasetSensor_snapshot str_other q now d tr =
     (case getitem d ''name'' of
        Inl e \<Rightarrow> (tr, Inl e)
      | Inr nm \<Rightarrow>
          (let payload = snapshot_payload str_other now nm in
           case api_query q ''pool.snapshot.create'' payload tr of
             (tr1, Inl e) \<Rightarrow> (tr1, Inl e)
           | (tr1, Inr result) \<Rightarrow>
               if has_error result then
                 (case api_query q ''zfs.snapshot.create'' payload tr1 of
                    (tr2, Inl e) \<Rightarrow> (tr2, Inl e)
                  | (tr2, Inr _) \<Rightarrow> (tr2, Inr ()))
               else (tr1, Inr ())))"

section \<open>TrueNASClousyncSensor\<close>

text \<open>The filter \<open>[[["id", "=", self._data["id"]]]]\<close> of the lookup.\<close>

definition id_filter :: "pyval \<Rightarrow> pyval" where
  "id_filter i = PList [PList [PList [PStr ''id'', PStr ''='', i]]]"

text \<open>\<open>jobs[0] if isinstance(jobs, list) and jobs else None\<close>.\<close>

fun first_job :: "pyval \<Rightarrow> pyval" where
  "first_job (PList (j # _)) = j"
| "first_job _ = PNone"

text \<open>\<open>not isinstance(tmp_job, dict) or "job" not in tmp_job\<close>.\<close>

fun invalid_job :: "pyval \<Rightarrow> bool" where
  "invalid_job (PDict kv) = (map_of kv ''job'' = None)"
| "invalid_job _ = True"

text \<open>\<open>x.get(key)\<close> on a mapping: the value, or none when the key is absent.\<close>

fun dict_get :: "pyval \<Rightarrow> string \<Rightarrow> pyval" where
  "dict_get (PDict kv) k = (case map_of kv k of None \<Rightarrow> PNone | Some v \<Rightarrow> v)"
| "dict_get _ k = PNone"

text \<open>\<open>job_state.get("state") if isinstance(job_state, dict) else None\<close>.\<close>

fun state_of :: "pyval \<Rightarrow> pyval" where
  "state_of (PDict jkv) = dict_get (PDict jkv) ''state''"
| "state_of _ = PNone"

text \<open>\<open>state in ["WAITING", "RUNNING"]\<close>.\<close>

definition active :: "pyval \<Rightarrow> bool" where
  "active state = (state \<in> set [PStr ''WAITING'', PStr ''RUNNING''])"

text \<open>
  A logger call whose arguments are \<open>self._data["description"]\<close> and
  \<open>self._data["id"]\<close>, evaluated in that order before the call.
\<close>

definition log_job :: "level \<Rightarrow> string \<Rightarrow> record_data \<Rightarrow> event list \<Rightarrow> event list \<times> (exn + unit)" where
  "log_job lvl msg d tr =
     (case getitem d ''description'' of
        Inl e \<Rightarrow> (tr, Inl e)
      | Inr desc \<Rightarrow>
          (case getitem d ''id'' of
             Inl e \<Rightarrow> (tr, Inl e)
           | Inr i \<Rightarrow> (tr @ [Log lvl msg [desc, i]], Inr ())))"

definition TrueNASClousyncSensor_start ::
  "api \<Rightarrow> record_data \<Rightarrow> event list \<Rightarrow> event list \<times> (exn + unit)" where
  "TrueNASClousyncSensor_start q d tr =
     (case getitem d ''id'' of
        Inl e \<Rightarrow> (tr, Inl e)
      | Inr i \<Rightarrow>
          (case api_query q ''cloudsync.query'' (id_filter i) tr of
             (tr1, Inl e) \<Rightarrow> (tr1, Inl e)
           | (tr1, Inr jobs) \<Rightarrow>
               (let tmp_job = first_job jobs in
                if invalid_job tmp_job then
                  log_job Error ''Clousync job %s (%s) invalid'' d tr1
                else
                  (let job_state = dict_get tmp_job ''job'';
                       state = state_of job_state in
                   if active state then
                     log_job Warning ''Clousync job %s (%s) is already running'' d tr1
                   else
                     (case getitem d ''id'' of
                        Inl e \<Rightarrow> (tr1, Inl e)
                      | Inr i' \<Rightarrow>
                          (case api_query q ''cloudsync.sync'' (PList [i']) tr1 of
                             (tr2, Inl e) \<Rightarrow> (tr2, Inl e)
                           | (tr2, Inr _) \<Rightarrow> (tr2, Inr ())))))))"

definition TrueNASClousyncSensor_stop ::
  "api \<Rightarrow> record_data \<Rightarrow> event list \<Rightarrow> event list \<times> (exn + unit)" where
  "TrueNASClousyncSensor_stop q d tr =
     (case getitem d ''id'' of
        Inl e \<Rightarrow> (tr, Inl e)
      | Inr i \<Rightarrow>
          (case api_query q ''cloudsync.query'' (id_filter i) tr of
             (tr1, Inl e) \<Rightarrow> (tr1, Inl e)
           | (tr1, Inr jobs) \<Rightarrow>
               (let tmp_job = first_job jobs in
                if invalid_job tmp_job then
                  log_job Error ''Clousync job %s (%s) invalid'' d tr1
                else
                  (let job_state = dict_get tmp_job ''job'';
                       state = state_of job_state in
                   if \<not> active state then
                     log_job Warning ''Clousync job %s (%s) is not running'' d tr1
                   else
                     (case getitem d ''id'' of
                        Inl e \<Rightarrow> (tr1, Inl e)
                      | Inr i' \<Rightarrow>
                          (case api_query q ''cloudsync.abort'' (PList [i']) tr1 of
                             (tr2, Inl e) \<Rightarrow> (tr2, Inl e)
                           | (tr2, Inr _) \<Rightarrow> (tr2, Inr ())))))))"

text \<open>
  The host invokes the stop action \<open>n\<close> times in a row on the same sensor, each
  invocation seeing the events of the earlier ones; an exception ends the run.
\<close>

fun stop_repeatedly :: "api \<Rightarrow> record_data \<Rightarrow> nat \<Rightarrow> event list \<Rightarrow> event list \<times> (exn + unit)" where
  "stop_repeatedly q d 0 tr = (tr, Inr ())"
| "stop_repeatedly q d (Suc n) tr =
     (case TrueNASClousyncSensor_stop q d tr of
        (tr1, Inl e) \<Rightarrow> (tr1, Inl e)
      | (tr1, Inr _) \<Rightarrow> stop_repeatedly q d n tr1)"

text \<open>The remote calls of a trace.\<close>

fun is_call :: "event \<Rightarrow> bool" where
  "is_call (Call m p) = True"
| "is_call (Log l f a) = False"

definition calls :: "event list \<Rightarrow> event list" where
  "calls tr = filter is_call tr"

text \<open>
  A sample API client for concrete runs: it answers each method from a table and raises
  for a method the table does not list.
\<close>

definition scripted :: "(string \<times> pyval) list \<Rightarrow> api" where
  "scripted tbl tr method params =
     (case map_of tbl method of None \<Rightarrow> Inl (ApiError method) | Some r \<Rightarrow> Inr r)"

section \<open>The branches of the cloud-sync actions\<close>

lemma active_iff: "active s \<longleftrightarrow> s = PStr ''WAITING'' \<or> s = PStr ''RUNNING''"
  by (auto simp: active_def)

lemma start_invalid:
  assumes "d ''id'' = Some i" and "d ''description'' = Some desc"
    and "q tr ''cloudsync.query'' (id_filter i) = Inr jobs"
    and "invalid_job (first_job jobs)"
  shows "TrueNASClousyncSensor_start q d tr =
           (tr @ [Call ''cloudsync.query'' (id_filter i),
                  Log Error ''Clousync job %s (%s) invalid'' [desc, i]], Inr ())"
  using assms
  by (simp add: TrueNASClousyncSensor_start_def getitem_def api_query_def log_job_def)

lemma stop_invalid:
  assumes "d ''id'' = Some i" and "d ''description'' = Some desc"
    and "q tr ''cloudsync.query'' (id_filter i) = Inr jobs"
    and "invalid_job (first_job jobs)"
  shows "TrueNASClousyncSensor_stop q d tr =
           (tr @ [Call ''cloudsync.query'' (id_filter i),
                  Log Error ''Clousync job %s (%s) invalid'' [desc, i]], Inr ())"
  using assms
  by (simp add: TrueNASClousyncSensor_stop_def getitem_def api_query_def log_job_def)

lemma start_active:
  assumes "d ''id'' = Some i" and "d ''description'' = Some desc"
    and "q tr ''cloudsync.query'' (id_filter i) = Inr jobs"
    and "\<not> invalid_job (first_job jobs)"
    and "active (state_of (dict_get (first_job jobs) ''job''))"
  shows "TrueNASClousyncSensor_start q d tr =
           (tr @ [Call ''cloudsync.query'' (id_filter i),
                  Log Warning ''Clousync job %s (%s) is already running'' [desc, i]], Inr ())"
  using assms
  by (simp add: TrueNASClousyncSensor_start_def getitem_def api_query_def log_job_def)

lemma start_inactive:
  assumes "d ''id'' = Some i"
    and "q tr ''cloudsync.query'' (id_filter i) = Inr jobs"
    and "\<not> invalid_job (first_job jobs)"
    and "\<not> active (state_of (dict_get (first_job jobs) ''job''))"
  shows "TrueNASClousyncSensor_start q d tr =
           (tr @ [Call ''cloudsync.query'' (id_filter i), Call ''cloudsync.sync'' (PList [i])],
            map_sum id (\<lambda>_. ())
              (q (tr @ [Call ''cloudsync.query'' (id_filter i)]) ''cloudsync.sync'' (PList [i])))"
  using assms
  by (simp add: TrueNASClousyncSensor_start_def getitem_def api_query_def split: sum.splits)

lemma stop_inactive:
  assumes "d ''id'' = Some i" and "d ''description'' = Some desc"
    and "q tr ''cloudsync.query'' (id_filter i) = Inr jobs"
    and "\<not> invalid_job (first_job jobs)"
    and "\<not> active (state_of (dict_get (first_job jobs) ''job''))"
  shows "TrueNASClousyncSensor_stop q d tr =
           (tr @ [Call ''cloudsync.query'' (id_filter i),
                  Log Warning ''Clousync job %s (%s) is not running'' [desc, i]], Inr ())"
  using assms
  by (simp add: TrueNASClousyncSensor_stop_def getitem_def api_query_def log_job_def)

lemma stop_active:
  assumes "d ''id'' = Some i"
    and "q tr ''cloudsync.query'' (id_filter i) = Inr jobs"
    and "\<not> invalid_job (first_job jobs)"
    and "active (state_of (dict_get (first_job jobs) ''job''))"
  shows "TrueNASClousyncSensor_stop q d tr =
           (tr @ [Call ''cloudsync.query'' (id_filter i), Call ''cloudsync.abort'' (PList [i])],
            map_sum id (\<lambda>_. ())
              (q (tr @ [Call ''cloudsync.query'' (id_filter i)]) ''cloudsync.abort'' (PList [i])))"
  using assms
  by (simp add: TrueNASClousyncSensor_stop_def getitem_def api_query_def split: sum.splits)

lemma lookup_raises:
  assumes "d ''id'' = Some i"
    and "q tr ''cloudsync.query'' (id_filter i) = Inl e"
  shows "TrueNASClousyncSensor_start q d tr =
           (tr @ [Call ''cloudsync.query'' (id_filter i)], Inl e)"
    and "TrueNASClousyncSensor_stop q d tr =
           (tr @ [Call ''cloudsync.query'' (id_filter i)], Inl e)"
  using assms
  by (simp_all add: TrueNASClousyncSensor_start_def TrueNASClousyncSensor_stop_def
        getitem_def api_query_def)

section \<open>The timestamp\<close>

lemma length_zpad: "length (zpad w k) = w"
  by (induction w arbitrary: k) simp_all

text \<open>Read as decimal digits, the padded text is the number (below \<open>10 ^ w\<close>).\<close>

lemma zpad_decimal:
  "foldl (\<lambda>a c. 10 * a + (of_char c - 48)) 0 (zpad w k) = k mod 10 ^ w"
proof (induction w arbitrary: k)
  case 0
  show ?case by simp
next
  case (Suc w)
  have "of_char (digit k) - 48 = k mod 10"
    by (simp add: digit_def)
  then show ?case
    using Suc [of "k div 10"] by (simp add: mod_mult2_eq)
qed

lemma decimal_zpad: "decimal (zpad w k) = k mod 10 ^ w"
  by (simp add: decimal_def zpad_decimal)

lemma is_decimal_digit: "is_decimal (digit k)"
proof -
  have "k mod 10 < 10" by simp
  then have "48 + k mod 10 < 256" by linarith
  then show ?thesis by (simp add: is_decimal_def digit_def)
qed

lemma list_all_zpad: "list_all is_decimal (zpad w k)"
  by (induction w arbitrary: k) (simp_all add: is_decimal_digit)

text \<open>
  The layout of the timestamp: 26 characters, the six separators at their places, and
  between them digits only, which read back as the fields of the instant.
\<close>

lemma isoformat_fields:
  "length (isoformat t) = 26 \<and>
   decimal (take 4 (isoformat t)) = year t mod 10 ^ 4 \<and>
   isoformat t ! 4 = CHR ''-'' \<and>
   decimal (take 2 (drop 5 (isoformat t))) = month t mod 10 ^ 2 \<and>
   isoformat t ! 7 = CHR ''-'' \<and>
   decimal (take 2 (drop 8 (isoformat t))) = day t mod 10 ^ 2 \<and>
   isoformat t ! 10 = CHR ''_'' \<and>
   decimal (take 2 (drop 11 (isoformat t))) = hour t mod 10 ^ 2 \<and>
   isoformat t ! 13 = CHR '':'' \<and>
   decimal (take 2 (drop 14 (isoformat t))) = minute t mod 10 ^ 2 \<and>
   isoformat t ! 16 = CHR '':'' \<and>
   decimal (take 2 (drop 17 (isoformat t))) = second t mod 10 ^ 2 \<and>
   isoformat t ! 19 = CHR ''.'' \<and>
   decimal (drop 20 (isoformat t)) = microsecond t mod 10 ^ 6 \<and>
   list_all is_decimal
     (take 4 (isoformat t) @ take 2 (drop 5 (isoformat t)) @ take 2 (drop 8 (isoformat t)) @
      take 2 (drop 11 (isoformat t)) @ take 2 (drop 14 (isoformat t)) @
      take 2 (drop 17 (isoformat t)) @ drop 20 (isoformat t))"
  by (simp add: isoformat_def nth_append length_zpad decimal_zpad list_all_zpad)

section \<open>Claims\<close>

text \<open>
  C8. For every cached record that contains the configured \<open>data_attribute\<close> field
  \<open>F\<close>, \<open>native_value\<close> is the value stored under \<open>F\<close>, unchanged; when \<open>F\<close> is
  absent the read raises \<open>KeyError\<close>, which the property does not handle.
\<close>

theorem native_value_verbatim:
  "(d F = Some v \<longrightarrow> native_value d F = Inr v) \<and>
   (d F = None \<longrightarrow> native_value d F = Inl (KeyError F))"
  by (simp add: native_value_def getitem_def)

theorem native_value_verbatim_witness:
  "native_value (map_of [(''used'', PInt 42)]) ''used'' = Inr (PInt 42) \<and>
   native_value (map_of [(''used'', PInt 42)]) ''free'' = Inl (KeyError ''free'')"
  using native_value_verbatim [of "map_of [(''used'', PInt 42)]" "''used''" "PInt 42"]
    native_value_verbatim [of "map_of [(''used'', PInt 42)]" "''free''"]
  by simp

text \<open>
  C7 as stated says that a unit string without the prefix \<open>data__\<close> is returned as it
  is. The empty string is such a string, and the truth test of the outer \<open>if\<close> sends it
  to \<open>return None\<close>.
\<close>

theorem empty_unit_counterexample:
  "native_unit_of_measurement (map_of [(''unit'', PStr ''GiB'')]) (Some []) \<noteq> PStr []"
  by (simp add: native_unit_of_measurement_def)

text \<open>
  C7, amended. With no configured unit, or with the empty string, the reported unit is
  none. A unit \<open>data__f\<close> reports the value of field \<open>f\<close> when the cached record has
  it, and the configured string with its prefix otherwise. A non-empty unit without the
  prefix is returned as it is.
\<close>

theorem unit_resolution:
  "native_unit_of_measurement d None = PNone \<and>
   native_unit_of_measurement d (Some []) = PNone \<and>
   (d f = Some v \<longrightarrow> native_unit_of_measurement d (Some (''data__'' @ f)) = v) \<and>
   (d f = None \<longrightarrow>
      native_unit_of_measurement d (Some (''data__'' @ f)) = PStr (''data__'' @ f)) \<and>
   (u \<noteq> [] \<and> take 6 u \<noteq> ''data__'' \<longrightarrow> native_unit_of_measurement d (Some u) = PStr u)"
  by (simp add: native_unit_of_measurement_def)

theorem unit_resolution_witness:
  "native_unit_of_measurement (map_of [(''unit'', PStr ''GiB'')]) (Some ''data__unit'') =
     PStr ''GiB'' \<and>
   native_unit_of_measurement (map_of [(''unit'', PStr ''GiB'')]) (Some ''data__other'') =
     PStr ''data__other'' \<and>
   native_unit_of_measurement (map_of [(''unit'', PStr ''GiB'')]) (Some ''%'') = PStr ''%''"
  using unit_resolution [of "map_of [(''unit'', PStr ''GiB'')]" "''unit''" "PStr ''GiB''" "''%''"]
    unit_resolution [of "map_of [(''unit'', PStr ''GiB'')]" "''other''" _ "''%''"]
  by simp

text \<open>
  C9. The restart action of the uptime sensor issues exactly one remote call,
  \<open>system.reboot\<close> with the one-element argument list holding the fixed reason, and
  its stop action exactly one, \<open>system.shutdown\<close> with the same argument. Whatever
  value the call returns, the action ends normally with nothing more done; an exception
  of the call is passed on.
\<close>

theorem uptime_actions:
  "TrueNASUptimeSensor_restart q tr =
     (tr @ [Call ''system.reboot'' (PList [PStr ''Home Assistant Integration''])],
      map_sum id (\<lambda>_. ())
        (q tr ''system.reboot'' (PList [PStr ''Home Assistant Integration'']))) \<and>
   TrueNASUptimeSensor_stop q tr =
     (tr @ [Call ''system.shutdown'' (PList [PStr ''Home Assistant Integration''])],
      map_sum id (\<lambda>_. ())
        (q tr ''system.shutdown'' (PList [PStr ''Home Assistant Integration''])))"
  by (simp add: TrueNASUptimeSensor_restart_def TrueNASUptimeSensor_stop_def api_query_def
      split: sum.splits)

lemma isoformat_example:
  "isoformat \<lparr>year = 2024, month = 11, day = 2, hour = 3, minute = 4, second = 5,
      microsecond = 6\<rparr> = ''2024-11-02_03:04:05.000006''"
  by code_simp

text \<open>
  C3. For a dataset record whose name is the string \<open>n\<close> and any clock instant
  \<open>now\<close>, the snapshot action builds the name \<open>custom-\<close> followed by the timestamp
  \<open>ts\<close> of that instant: 26 characters, in which the year (4 digits), month, day, hour,
  minute, second (2 digits each) and microsecond (6 digits) of \<open>now\<close> can be read back
  between the separators \<open>-\<close>, \<open>-\<close>, \<open>_\<close>, \<open>:\<close>, \<open>:\<close> and \<open>.\<close> (a field of a
  \<open>datetime\<close> is below the bound of its width, so the \<open>mod\<close> leaves it as it is). The
  action first calls \<open>pool.snapshot.create\<close> with the payload of dataset \<open>n\<close> and that
  name, and calls \<open>zfs.snapshot.create\<close> with the same payload exactly when the first
  call returned a mapping with the key \<open>error\<close>. The value the second call returns
  changes nothing.
\<close>

theorem snapshot_calls:
  assumes "d ''name'' = Some (PStr n)"
  shows "let ts = isoformat now;
             payload = PDict [(''dataset'', PStr n), (''name'', PStr (''custom-'' @ ts))];
             primary = q tr ''pool.snapshot.create'' payload;
             retry = (case primary of
                        Inr (PDict kv) \<Rightarrow> map_of kv ''error'' \<noteq> None
                      | _ \<Rightarrow> False)
         in fst (TrueNASDatasetSensor_snapshot str_other q now d tr) =
              tr @ Call ''pool.snapshot.create'' payload #
                (if retry then [Call ''zfs.snapshot.create'' payload] else []) \<and>
            snd (TrueNASDatasetSensor_snapshot str_other q now d tr) =
              (if retry
               then map_sum id (\<lambda>_. ())
                      (q (tr @ [Call ''pool.snapshot.create'' payload])
                         ''zfs.snapshot.create'' payload)
               else map_sum id (\<lambda>_. ()) primary) \<and>
            length ts = 26 \<and>
            decimal (take 4 ts) = year now mod 10 ^ 4 \<and>
            ts ! 4 = CHR ''-'' \<and>
            decimal (take 2 (drop 5 ts)) = month now mod 10 ^ 2 \<and>
            ts ! 7 = CHR ''-'' \<and>
            decimal (take 2 (drop 8 ts)) = day now mod 10 ^ 2 \<and>
            ts ! 10 = CHR ''_'' \<and>
            decimal (take 2 (drop 11 ts)) = hour now mod 10 ^ 2 \<and>
            ts ! 13 = CHR '':'' \<and>
            decimal (take 2 (drop 14 ts)) = minute now mod 10 ^ 2 \<and>
            ts ! 16 = CHR '':'' \<and>
            decimal (take 2 (drop 17 ts)) = second now mod 10 ^ 2 \<and>
            ts ! 19 = CHR ''.'' \<and>
            decimal (drop 20 ts) = microsecond now mod 10 ^ 6 \<and>
            list_all is_decimal
              (take 4 ts @ take 2 (drop 5 ts) @ take 2 (drop 8 ts) @ take 2 (drop 11 ts) @
               take 2 (drop 14 ts) @ take 2 (drop 17 ts) @ drop 20 ts)"
proof -
  have calls_made:
    "let payload = PDict [(''dataset'', PStr n),
                          (''name'', PStr (''custom-'' @ isoformat now))];
         primary = q tr ''pool.snapshot.create'' payload;
         retry = (case primary of
                    Inr (PDict kv) \<Rightarrow> map_of kv ''error'' \<noteq> None
                  | _ \<Rightarrow> False)
     in fst (TrueNASDatasetSensor_snapshot str_other q now d tr) =
          tr @ Call ''pool.snapshot.create'' payload #
            (if retry then [Call ''zfs.snapshot.create'' payload] else []) \<and>
        snd (TrueNASDatasetSensor_snapshot str_other q now d tr) =
          (if retry
           then map_sum id (\<lambda>_. ())
                  (q (tr @ [Call ''pool.snapshot.create'' payload])
                     ''zfs.snapshot.create'' payload)
           else map_sum id (\<lambda>_. ()) primary)"
    using assms
    by (simp add: TrueNASDatasetSensor_snapshot_def snapshot_payload_def format_value_def
        getitem_def api_query_def Let_def split: sum.splits pyval.splits)
  show ?thesis
    using calls_made isoformat_fields [of now] by (simp add: Let_def)
qed

theorem snapshot_calls_witness:
  "TrueNASDatasetSensor_snapshot (\<lambda>v. ''?'')
     (scripted [(''pool.snapshot.create'', PDict [(''error'', PStr ''ENOMETHOD'')]),
                (''zfs.snapshot.create'', PBool True)])
     \<lparr>year = 2024, month = 11, day = 2, hour = 3, minute = 4, second = 5, microsecond = 6\<rparr>
     (map_of [(''name'', PStr ''tank/data'')]) [] =
   ([Call ''pool.snapshot.create''
       (PDict [(''dataset'', PStr ''tank/data''),
               (''name'', PStr ''custom-2024-11-02_03:04:05.000006'')]),
     Call ''zfs.snapshot.create''
       (PDict [(''dataset'', PStr ''tank/data''),
               (''name'', PStr ''custom-2024-11-02_03:04:05.000006'')])],
    Inr ())"
  using snapshot_calls [of "map_of [(''name'', PStr ''tank/data'')]" "''tank/data''"
     "\<lparr>year = 2024, month = 11, day = 2, hour = 3, minute = 4, second = 5, microsecond = 6\<rparr>"
     "scripted [(''pool.snapshot.create'', PDict [(''error'', PStr ''ENOMETHOD'')]),
                (''zfs.snapshot.create'', PBool True)]" "[]" "\<lambda>v. ''?''"]
  by (simp add: scripted_def Let_def prod_eq_iff isoformat_example)

text \<open>
  C1. The record of a cloud-sync sensor holds \<open>id\<close> and \<open>description\<close>. When the
  lookup returns a list whose first element is a job record with an embedded job
  mapping: if the state of that mapping is \<open>WAITING\<close> or \<open>RUNNING\<close>, start logs the
  warning and returns, having issued the lookup only; for every other state, absent
  ones included, it issues the lookup and then exactly one \<open>cloudsync.sync\<close> call with
  the one-element list holding the job identifier.
\<close>

theorem start_guard:
  assumes "d ''id'' = Some i" and "d ''description'' = Some desc"
    and "q tr ''cloudsync.query'' (id_filter i) = Inr (PList (PDict kv # rest))"
    and "map_of kv ''job'' = Some (PDict jkv)"
  shows "(map_of jkv ''state'' \<in> {Some (PStr ''WAITING''), Some (PStr ''RUNNING'')} \<longrightarrow>
            TrueNASClousyncSensor_start q d tr =
              (tr @ [Call ''cloudsync.query'' (id_filter i),
                     Log Warning ''Clousync job %s (%s) is already running'' [desc, i]],
               Inr ())) \<and>
         (map_of jkv ''state'' \<notin> {Some (PStr ''WAITING''), Some (PStr ''RUNNING'')} \<longrightarrow>
            fst (TrueNASClousyncSensor_start q d tr) =
              tr @ [Call ''cloudsync.query'' (id_filter i),
                    Call ''cloudsync.sync'' (PList [i])])"
proof (intro conjI impI)
  have valid: "\<not> invalid_job (first_job (PList (PDict kv # rest)))"
    using assms(4) by simp
  {
    assume "map_of jkv ''state'' \<in> {Some (PStr ''WAITING''), Some (PStr ''RUNNING'')}"
    then have "active (state_of (dict_get (first_job (PList (PDict kv # rest))) ''job''))"
      using assms(4) by (auto simp: active_iff)
    from start_active [of d i desc q tr "PList (PDict kv # rest)", OF assms(1,2,3) valid this]
    show "TrueNASClousyncSensor_start q d tr =
            (tr @ [Call ''cloudsync.query'' (id_filter i),
                   Log Warning ''Clousync job %s (%s) is already running'' [desc, i]],
             Inr ())" .
  }
  {
    assume "map_of jkv ''state'' \<notin> {Some (PStr ''WAITING''), Some (PStr ''RUNNING'')}"
    then have "\<not> active (state_of (dict_get (first_job (PList (PDict kv # rest))) ''job''))"
      using assms(4) by (auto simp: active_iff split: option.splits)
    from start_inactive [of d i q tr "PList (PDict kv # rest)", OF assms(1,3) valid this]
    show "fst (TrueNASClousyncSensor_start q d tr) =
            tr @ [Call ''cloudsync.query'' (id_filter i), Call ''cloudsync.sync'' (PList [i])]"
      by simp
  }
qed

theorem start_guard_witness:
  "TrueNASClousyncSensor_start
      (scripted [(''cloudsync.query'',
         PList [PDict [(''id'', PInt 7), (''job'', PDict [(''state'', PStr ''RUNNING'')])]])])
      (map_of [(''id'', PInt 7), (''description'', PStr ''backup'')]) [] =
     ([Call ''cloudsync.query'' (id_filter (PInt 7)),
       Log Warning ''Clousync job %s (%s) is already running'' [PStr ''backup'', PInt 7]],
      Inr ()) \<and>
   fst (TrueNASClousyncSensor_start
      (scripted [(''cloudsync.query'',
         PList [PDict [(''id'', PInt 7), (''job'', PDict [(''state'', PStr ''SUCCESS'')])]])])
      (map_of [(''id'', PInt 7), (''description'', PStr ''backup'')]) []) =
     [Call ''cloudsync.query'' (id_filter (PInt 7)), Call ''cloudsync.sync'' (PList [PInt 7])]"
  using start_guard [of "map_of [(''id'', PInt 7), (''description'', PStr ''backup'')]"
      "PInt 7" "PStr ''backup''"
      "scripted [(''cloudsync.query'',
         PList [PDict [(''id'', PInt 7), (''job'', PDict [(''state'', PStr ''RUNNING'')])]])]"
      "[]" "[(''id'', PInt 7), (''job'', PDict [(''state'', PStr ''RUNNING'')])]" "[]"
      "[(''state'', PStr ''RUNNING'')]"]
    start_guard [of "map_of [(''id'', PInt 7), (''description'', PStr ''backup'')]"
      "PInt 7" "PStr ''backup''"
      "scripted [(''cloudsync.query'',
         PList [PDict [(''id'', PInt 7), (''job'', PDict [(''state'', PStr ''SUCCESS'')])]])]"
      "[]" "[(''id'', PInt 7), (''job'', PDict [(''state'', PStr ''SUCCESS'')])]" "[]"
      "[(''state'', PStr ''SUCCESS'')]"]
  by (simp add: scripted_def)

lemma invalid_first_job_iff:
  "invalid_job (first_job jobs) \<longleftrightarrow>
     (\<forall>kv rest. jobs = PList (PDict kv # rest) \<longrightarrow> map_of kv ''job'' = None)"
proof (cases jobs)
  case (PList xs)
  show ?thesis
  proof (cases xs)
    case Nil
    with PList show ?thesis by simp
  next
    case (Cons x rest)
    with PList show ?thesis by (cases x) simp_all
  qed
qed simp_all

lemma state_of_non_dict: "(\<forall>jkv. j \<noteq> PDict jkv) \<Longrightarrow> state_of j = PNone"
  by (cases j) simp_all

text \<open>
  C2 as stated has a job record without a usable embedded job sub-record logged as an
  error with no mutating call. A record whose \<open>job\<close> key holds none (a task that has
  never run) passes the validity test, its state is read as none, and start goes on to
  \<open>cloudsync.sync\<close>.
\<close>

theorem null_job_counterexample:
  "fst (TrueNASClousyncSensor_start
      (scripted [(''cloudsync.query'', PList [PDict [(''id'', PInt 7), (''job'', PNone)]])])
      (map_of [(''id'', PInt 7), (''description'', PStr ''backup'')]) []) =
     [Call ''cloudsync.query'' (id_filter (PInt 7)), Call ''cloudsync.sync'' (PList [PInt 7])]"
  by (simp add: TrueNASClousyncSensor_start_def getitem_def api_query_def scripted_def
      active_def split: sum.splits)

text \<open>
  C2, amended. For a sensor record holding \<open>id\<close> and \<open>description\<close> and any value
  returned by the lookup: when there is no first element that is a mapping with the key
  \<open>job\<close> (no list, an empty list, a first element that is no mapping, or a mapping
  without that key), start and stop both log the same error and return normally, the
  lookup being the only remote call. A record whose \<open>job\<close> key holds a value that is
  not a mapping is not treated as malformed: its state is none, so start issues
  \<open>cloudsync.sync\<close> and stop logs the warning that the job is not running.
\<close>

theorem invalid_job_handling:
  assumes "d ''id'' = Some i" and "d ''description'' = Some desc"
    and "q tr ''cloudsync.query'' (id_filter i) = Inr jobs"
  shows "((\<forall>kv rest. jobs = PList (PDict kv # rest) \<longrightarrow> map_of kv ''job'' = None) \<longrightarrow>
            TrueNASClousyncSensor_start q d tr =
              (tr @ [Call ''cloudsync.query'' (id_filter i),
                     Log Error ''Clousync job %s (%s) invalid'' [desc, i]], Inr ()) \<and>
            TrueNASClousyncSensor_stop q d tr =
              (tr @ [Call ''cloudsync.query'' (id_filter i),
                     Log Error ''Clousync job %s (%s) invalid'' [desc, i]], Inr ())) \<and>
         (\<forall>kv rest j. jobs = PList (PDict kv # rest) \<and> map_of kv ''job'' = Some j \<and>
              (\<forall>jkv. j \<noteq> PDict jkv) \<longrightarrow>
            fst (TrueNASClousyncSensor_start q d tr) =
              tr @ [Call ''cloudsync.query'' (id_filter i),
                    Call ''cloudsync.sync'' (PList [i])] \<and>
            TrueNASClousyncSensor_stop q d tr =
              (tr @ [Call ''cloudsync.query'' (id_filter i),
                     Log Warning ''Clousync job %s (%s) is not running'' [desc, i]], Inr ()))"
proof (intro conjI impI allI)
  assume "\<forall>kv rest. jobs = PList (PDict kv # rest) \<longrightarrow> map_of kv ''job'' = None"
  then have inv: "invalid_job (first_job jobs)"
    by (simp add: invalid_first_job_iff)
  show "TrueNASClousyncSensor_start q d tr =
          (tr @ [Call ''cloudsync.query'' (id_filter i),
                 Log Error ''Clousync job %s (%s) invalid'' [desc, i]], Inr ())"
    using start_invalid [of d i desc q tr jobs] assms inv by simp
  show "TrueNASClousyncSensor_stop q d tr =
          (tr @ [Call ''cloudsync.query'' (id_filter i),
                 Log Error ''Clousync job %s (%s) invalid'' [desc, i]], Inr ())"
    using stop_invalid [of d i desc q tr jobs] assms inv by simp
next
  fix kv rest j
  assume a: "jobs = PList (PDict kv # rest) \<and> map_of kv ''job'' = Some j \<and>
             (\<forall>jkv. j \<noteq> PDict jkv)"
  then have valid: "\<not> invalid_job (first_job jobs)"
    by simp
  from a have idle: "\<not> active (state_of (dict_get (first_job jobs) ''job''))"
    by (simp add: state_of_non_dict active_iff)
  show "fst (TrueNASClousyncSensor_start q d tr) =
          tr @ [Call ''cloudsync.query'' (id_filter i), Call ''cloudsync.sync'' (PList [i])]"
    using start_inactive [of d i q tr jobs] assms valid idle by simp
  show "TrueNASClousyncSensor_stop q d tr =
          (tr @ [Call ''cloudsync.query'' (id_filter i),
                 Log Warning ''Clousync job %s (%s) is not running'' [desc, i]], Inr ())"
    using stop_inactive [of d i desc q tr jobs] assms valid idle by simp
qed

theorem invalid_job_handling_witness:
  "TrueNASClousyncSensor_start
      (scripted [(''cloudsync.query'', PList [PDict [(''id'', PInt 7)]])])
      (map_of [(''id'', PInt 7), (''description'', PStr ''backup'')]) [] =
     ([Call ''cloudsync.query'' (id_filter (PInt 7)),
       Log Error ''Clousync job %s (%s) invalid'' [PStr ''backup'', PInt 7]], Inr ()) \<and>
   TrueNASClousyncSensor_stop
      (scripted [(''cloudsync.query'', PList [PDict [(''id'', PInt 7)]])])
      (map_of [(''id'', PInt 7), (''description'', PStr ''backup'')]) [] =
     ([Call ''cloudsync.query'' (id_filter (PInt 7)),
       Log Error ''Clousync job %s (%s) invalid'' [PStr ''backup'', PInt 7]], Inr ()) \<and>
   TrueNASClousyncSensor_stop
      (scripted [(''cloudsync.query'', PList [PDict [(''id'', PInt 7), (''job'', PNone)]])])
      (map_of [(''id'', PInt 7), (''description'', PStr ''backup'')]) [] =
     ([Call ''cloudsync.query'' (id_filter (PInt 7)),
       Log Warning ''Clousync job %s (%s) is not running'' [PStr ''backup'', PInt 7]], Inr ())"
  using invalid_job_handling [of "map_of [(''id'', PInt 7), (''description'', PStr ''backup'')]"
      "PInt 7" "PStr ''backup''"
      "scripted [(''cloudsync.query'', PList [PDict [(''id'', PInt 7)]])]" "[]"
      "PList [PDict [(''id'', PInt 7)]]"]
    invalid_job_handling [of "map_of [(''id'', PInt 7), (''description'', PStr ''backup'')]"
      "PInt 7" "PStr ''backup''"
      "scripted [(''cloudsync.query'', PList [PDict [(''id'', PInt 7), (''job'', PNone)]])]" "[]"
      "PList [PDict [(''id'', PInt 7), (''job'', PNone)]]"]
  by (simp add: scripted_def)

text \<open>
  C4. When the lookup returns a list whose first element is a job record with an
  embedded job mapping of state \<open>WAITING\<close> or \<open>RUNNING\<close>, stop issues the lookup and
  then exactly one \<open>cloudsync.abort\<close> call with the one-element list holding the job
  identifier; the value that call returns is discarded.
\<close>

theorem stop_aborts:
  assumes "d ''id'' = Some i"
    and "q tr ''cloudsync.query'' (id_filter i) = Inr (PList (PDict kv # rest))"
    and "map_of kv ''job'' = Some (PDict jkv)"
    and "map_of jkv ''state'' = Some (PStr s)"
    and "s = ''WAITING'' \<or> s = ''RUNNING''"
  shows "TrueNASClousyncSensor_stop q d tr =
           (tr @ [Call ''cloudsync.query'' (id_filter i), Call ''cloudsync.abort'' (PList [i])],
            map_sum id (\<lambda>_. ())
              (q (tr @ [Call ''cloudsync.query'' (id_filter i)]) ''cloudsync.abort'' (PList [i])))"
proof -
  have valid: "\<not> invalid_job (first_job (PList (PDict kv # rest)))"
    using assms(3) by simp
  have act: "active (state_of (dict_get (first_job (PList (PDict kv # rest))) ''job''))"
    using assms(3,4,5) by (auto simp: active_iff)
  show ?thesis
    using stop_active [of d i q tr "PList (PDict kv # rest)"] assms(1,2) valid act by simp
qed

theorem stop_aborts_witness:
  "TrueNASClousyncSensor_stop
      (scripted [(''cloudsync.query'',
         PList [PDict [(''id'', PInt 7), (''job'', PDict [(''state'', PStr ''WAITING'')])]]),
                 (''cloudsync.abort'', PBool True)])
      (map_of [(''id'', PInt 7), (''description'', PStr ''backup'')]) [] =
     ([Call ''cloudsync.query'' (id_filter (PInt 7)), Call ''cloudsync.abort'' (PList [PInt 7])],
      Inr ())"
  using stop_aborts [of "map_of [(''id'', PInt 7), (''description'', PStr ''backup'')]"
      "PInt 7"
      "scripted [(''cloudsync.query'',
         PList [PDict [(''id'', PInt 7), (''job'', PDict [(''state'', PStr ''WAITING'')])]]),
                 (''cloudsync.abort'', PBool True)]"
      "[]" "[(''id'', PInt 7), (''job'', PDict [(''state'', PStr ''WAITING'')])]" "[]"
      "[(''state'', PStr ''WAITING'')]" "''WAITING''"]
  by (simp add: scripted_def)

text \<open>
  C5. The record of the sensor holds \<open>id\<close> and \<open>description\<close>. As long as every
  lookup, whatever happened before it, returns a list headed by a job record with an
  embedded job mapping whose state is neither \<open>WAITING\<close> nor \<open>RUNNING\<close>, any number
  of stop invocations in a row end normally, and each adds the lookup and the warning
  that the job is not running and nothing else: no \<open>cloudsync.abort\<close> call is made.
\<close>

theorem stop_idempotent:
  assumes "d ''id'' = Some i" and "d ''description'' = Some desc"
    and "\<forall>h. \<exists>kv rest jkv.
           q h ''cloudsync.query'' (id_filter i) = Inr (PList (PDict kv # rest)) \<and>
           map_of kv ''job'' = Some (PDict jkv) \<and>
           map_of jkv ''state'' \<notin> {Some (PStr ''WAITING''), Some (PStr ''RUNNING'')}"
  shows "stop_repeatedly q d n tr =
           (tr @ concat (replicate n
                   [Call ''cloudsync.query'' (id_filter i),
                    Log Warning ''Clousync job %s (%s) is not running'' [desc, i]]),
            Inr ())"
proof (induction n arbitrary: tr)
  case 0
  show ?case by simp
next
  case (Suc n)
  from assms(3) obtain kv rest jkv where
    r: "q tr ''cloudsync.query'' (id_filter i) = Inr (PList (PDict kv # rest))" and
    j: "map_of kv ''job'' = Some (PDict jkv)" and
    s: "map_of jkv ''state'' \<notin> {Some (PStr ''WAITING''), Some (PStr ''RUNNING'')}"
    by blast
  have valid: "\<not> invalid_job (first_job (PList (PDict kv # rest)))"
    using j by simp
  have idle: "\<not> active (state_of (dict_get (first_job (PList (PDict kv # rest))) ''job''))"
    using j s by (auto simp: active_iff split: option.splits)
  have one: "TrueNASClousyncSensor_stop q d tr =
           (tr @ [Call ''cloudsync.query'' (id_filter i),
                  Log Warning ''Clousync job %s (%s) is not running'' [desc, i]], Inr ())"
    using stop_inactive [of d i desc q tr "PList (PDict kv # rest)"] assms(1,2) r valid idle
    by simp
  show ?case
    by (simp add: one Suc.IH)
qed

theorem stop_idempotent_witness:
  "stop_repeatedly
      (scripted [(''cloudsync.query'',
         PList [PDict [(''id'', PInt 7), (''job'', PDict [(''state'', PStr ''SUCCESS'')])]])])
      (map_of [(''id'', PInt 7), (''description'', PStr ''backup'')]) (Suc (Suc 0)) [] =
     ([Call ''cloudsync.query'' (id_filter (PInt 7)),
       Log Warning ''Clousync job %s (%s) is not running'' [PStr ''backup'', PInt 7],
       Call ''cloudsync.query'' (id_filter (PInt 7)),
       Log Warning ''Clousync job %s (%s) is not running'' [PStr ''backup'', PInt 7]],
      Inr ())"
  using stop_idempotent [of "map_of [(''id'', PInt 7), (''description'', PStr ''backup'')]"
      "PInt 7" "PStr ''backup''"
      "scripted [(''cloudsync.query'',
         PList [PDict [(''id'', PInt 7), (''job'', PDict [(''state'', PStr ''SUCCESS'')])]])]"
      "Suc (Suc 0)" "[]"]
  by (simp add: scripted_def)

text \<open>
  C6. For a sensor record holding \<open>id\<close>, any API client and any earlier events, the
  remote calls that one invocation of start or stop adds are either the
  \<open>cloudsync.query\<close> lookup alone, or that lookup followed by the one mutating call
  (\<open>cloudsync.sync\<close> for start, \<open>cloudsync.abort\<close> for stop); the second case arises
  only when the lookup has returned a list headed by a mapping that has the key \<open>job\<close>.
\<close>

theorem lookup_then_at_most_one:
  assumes "d ''id'' = Some i"
  shows "(\<exists>ev. fst (TrueNASClousyncSensor_start q d tr) = tr @ ev \<and>
            (calls ev = [Call ''cloudsync.query'' (id_filter i)] \<or>
             calls ev = [Call ''cloudsync.query'' (id_filter i),
                         Call ''cloudsync.sync'' (PList [i])] \<and>
             (\<exists>kv rest j. q tr ''cloudsync.query'' (id_filter i) = Inr (PList (PDict kv # rest)) \<and>
                 map_of kv ''job'' = Some j))) \<and>
         (\<exists>ev. fst (TrueNASClousyncSensor_stop q d tr) = tr @ ev \<and>
            (calls ev = [Call ''cloudsync.query'' (id_filter i)] \<or>
             calls ev = [Call ''cloudsync.query'' (id_filter i),
                         Call ''cloudsync.abort'' (PList [i])] \<and>
             (\<exists>kv rest j. q tr ''cloudsync.query'' (id_filter i) = Inr (PList (PDict kv # rest)) \<and>
                 map_of kv ''job'' = Some j)))"
proof (cases "q tr ''cloudsync.query'' (id_filter i)")
  case (Inl e)
  show ?thesis
    using lookup_raises [of d i q tr e] assms Inl by (simp add: calls_def)
next
  case (Inr jobs)
  show ?thesis
  proof (cases "invalid_job (first_job jobs)")
    case True
    have "TrueNASClousyncSensor_start q d tr =
            log_job Error ''Clousync job %s (%s) invalid'' d
              (tr @ [Call ''cloudsync.query'' (id_filter i)])"
      and "TrueNASClousyncSensor_stop q d tr =
            log_job Error ''Clousync job %s (%s) invalid'' d
              (tr @ [Call ''cloudsync.query'' (id_filter i)])"
      using assms Inr True
      by (simp_all add: TrueNASClousyncSensor_start_def TrueNASClousyncSensor_stop_def
          getitem_def api_query_def)
    then show ?thesis
      using assms by (simp add: log_job_def getitem_def calls_def split: option.splits)
  next
    case False
    then obtain kv rest j where
      v: "jobs = PList (PDict kv # rest)" "map_of kv ''job'' = Some j"
      by (auto simp: invalid_first_job_iff)
    show ?thesis
    proof (cases "active (state_of (dict_get (first_job jobs) ''job''))")
      case True
      have "TrueNASClousyncSensor_start q d tr =
              log_job Warning ''Clousync job %s (%s) is already running'' d
                (tr @ [Call ''cloudsync.query'' (id_filter i)])"
        using assms Inr False True
        by (simp add: TrueNASClousyncSensor_start_def getitem_def api_query_def)
      then have "\<exists>ev. fst (TrueNASClousyncSensor_start q d tr) = tr @ ev \<and>
          calls ev = [Call ''cloudsync.query'' (id_filter i)]"
        using assms by (simp add: log_job_def getitem_def calls_def split: option.splits)
      moreover have "\<exists>ev. fst (TrueNASClousyncSensor_stop q d tr) = tr @ ev \<and>
          calls ev = [Call ''cloudsync.query'' (id_filter i), Call ''cloudsync.abort'' (PList [i])]"
        using stop_active [of d i q tr jobs] assms Inr False True by (simp add: calls_def)
      ultimately show ?thesis
        using Inr v by blast
    next
      case idle: False
      have "TrueNASClousyncSensor_stop q d tr =
              log_job Warning ''Clousync job %s (%s) is not running'' d
                (tr @ [Call ''cloudsync.query'' (id_filter i)])"
        using assms Inr False idle
        by (simp add: TrueNASClousyncSensor_stop_def getitem_def api_query_def)
      then have "\<exists>ev. fst (TrueNASClousyncSensor_stop q d tr) = tr @ ev \<and>
          calls ev = [Call ''cloudsync.query'' (id_filter i)]"
        using assms by (simp add: log_job_def getitem_def calls_def split: option.splits)
      moreover have "\<exists>ev. fst (TrueNASClousyncSensor_start q d tr) = tr @ ev \<and>
          calls ev = [Call ''cloudsync.query'' (id_filter i), Call ''cloudsync.sync'' (PList [i])]"
        using start_inactive [of d i q tr jobs] assms Inr False idle by (simp add: calls_def)
      ultimately show ?thesis
        using Inr v by blast
    qed
  qed
qed

theorem lookup_then_at_most_one_witness:
  "(\<exists>ev. fst (TrueNASClousyncSensor_start
            (scripted [(''cloudsync.query'',
               PList [PDict [(''id'', PInt 7), (''job'', PDict [(''state'', PStr ''RUNNING'')])]])])
            (map_of [(''id'', PInt 7)]) [Log Error ''earlier'' []]) =
           [Log Error ''earlier'' []] @ ev \<and>
         calls ev = [Call ''cloudsync.query'' (id_filter (PInt 7))]) \<and>
   (\<exists>ev. fst (TrueNASClousyncSensor_stop
            (scripted [(''cloudsync.query'',
               PList [PDict [(''id'', PInt 7), (''job'', PDict [(''state'', PStr ''RUNNING'')])]])])
            (map_of [(''id'', PInt 7)]) [Log Error ''earlier'' []]) =
           [Log Error ''earlier'' []] @ ev \<and>
         calls ev = [Call ''cloudsync.query'' (id_filter (PInt 7)),
                     Call ''cloudsync.abort'' (PList [PInt 7])])"
proof -
  have start: "fst (TrueNASClousyncSensor_start
            (scripted [(''cloudsync.query'',
               PList [PDict [(''id'', PInt 7), (''job'', PDict [(''state'', PStr ''RUNNING'')])]])])
            (map_of [(''id'', PInt 7)]) [Log Error ''earlier'' []]) =
          [Log Error ''earlier'' [], Call ''cloudsync.query'' (id_filter (PInt 7))]"
    by (simp add: TrueNASClousyncSensor_start_def getitem_def api_query_def scripted_def
        active_def log_job_def)
  have stop: "fst (TrueNASClousyncSensor_stop
            (scripted [(''cloudsync.query'',
               PList [PDict [(''id'', PInt 7), (''job'', PDict [(''state'', PStr ''RUNNING'')])]])])
            (map_of [(''id'', PInt 7)]) [Log Error ''earlier'' []]) =
          [Log Error ''earlier'' [], Call ''cloudsync.query'' (id_filter (PInt 7)),
           Call ''cloudsync.abort'' (PList [PInt 7])]"
    by (simp add: TrueNASClousyncSensor_stop_def getitem_def api_query_def scripted_def
        active_def split: sum.splits)
  show ?thesis
    unfolding start stop
    using lookup_then_at_most_one [of "map_of [(''id'', PInt 7)]" "PInt 7"
        "scripted [(''cloudsync.query'',
           PList [PDict [(''id'', PInt 7), (''job'', PDict [(''state'', PStr ''RUNNING'')])]])]"
        "[Log Error ''earlier'' []]"]
    by (simp add: calls_def)
qed

text \<open>
  C10. The record of the sensor holds \<open>id\<close> and \<open>description\<close>. When the lookup
  returns a value that is not a list, an empty list, or a list whose first element is not
  a mapping, start and stop raise nothing: each logs the error as if no job matched and
  returns, the lookup being its only remote call.
\<close>

theorem unusable_lookup_is_error:
  assumes "d ''id'' = Some i" and "d ''description'' = Some desc"
    and "q tr ''cloudsync.query'' (id_filter i) = Inr jobs"
    and "(\<forall>xs. jobs \<noteq> PList xs) \<or> jobs = PList [] \<or>
         (\<exists>x rest. jobs = PList (x # rest) \<and> (\<forall>kv. x \<noteq> PDict kv))"
  shows "TrueNASClousyncSensor_start q d tr =
           (tr @ [Call ''cloudsync.query'' (id_filter i),
                  Log Error ''Clousync job %s (%s) invalid'' [desc, i]], Inr ()) \<and>
         TrueNASClousyncSensor_stop q d tr =
           (tr @ [Call ''cloudsync.query'' (id_filter i),
                  Log Error ''Clousync job %s (%s) invalid'' [desc, i]], Inr ())"
proof -
  have "invalid_job (first_job jobs)"
    using assms(4) by (auto simp: invalid_first_job_iff)
  then show ?thesis
    using start_invalid [of d i desc q tr jobs] stop_invalid [of d i desc q tr jobs]
      assms(1,2,3) by simp
qed

theorem unusable_lookup_is_error_witness:
  "TrueNASClousyncSensor_start
      (scripted [(''cloudsync.query'', PDict [(''error'', PStr ''ENOTAUTHENTICATED'')])])
      (map_of [(''id'', PInt 7), (''description'', PStr ''backup'')]) [] =
     ([Call ''cloudsync.query'' (id_filter (PInt 7)),
       Log Error ''Clousync job %s (%s) invalid'' [PStr ''backup'', PInt 7]], Inr ()) \<and>
   TrueNASClousyncSensor_stop
      (scripted [(''cloudsync.query'', PList [])])
      (map_of [(''id'', PInt 7), (''description'', PStr ''backup'')]) [] =
     ([Call ''cloudsync.query'' (id_filter (PInt 7)),
       Log Error ''Clousync job %s (%s) invalid'' [PStr ''backup'', PInt 7]], Inr ()) \<and>
   TrueNASClousyncSensor_stop
      (scripted [(''cloudsync.query'', PList [PStr ''x''])])
      (map_of [(''id'', PInt 7), (''description'', PStr ''backup'')]) [] =
     ([Call ''cloudsync.query'' (id_filter (PInt 7)),
       Log Error ''Clousync job %s (%s) invalid'' [PStr ''backup'', PInt 7]], Inr ())"
  using unusable_lookup_is_error [of "map_of [(''id'', PInt 7), (''description'', PStr ''backup'')]"
      "PInt 7" "PStr ''backup''"
      "scripted [(''cloudsync.query'', PDict [(''error'', PStr ''ENOTAUTHENTICATED'')])]" "[]"
      "PDict [(''error'', PStr ''ENOTAUTHENTICATED'')]"]
    unusable_lookup_is_error [of "map_of [(''id'', PInt 7), (''description'', PStr ''backup'')]"
      "PInt 7" "PStr ''backup''"
      "scripted [(''cloudsync.query'', PList [])]" "[]" "PList []"]
    unusable_lookup_is_error [of "map_of [(''id'', PInt 7), (''description'', PStr ''backup'')]"
      "PInt 7" "PStr ''backup''"
      "scripted [(''cloudsync.query'', PList [PStr ''x''])]" "[]" "PList [PStr ''x'']"]
  by (simp add: scripted_def)

end
